theory Spec2Isabelle
  imports Complex_Main "HOL-Library.Word"
begin

unbundle bit_operations_syntax

section \<open>Machine arithmetic used by the driver\<close>

type_synonym u8 = "8 word"
type_synonym u32 = "32 word"

subsection \<open>Binary floating point, round to nearest even\<close>

text \<open>
  The driver computes with C \<open>float\<close> (24 significant bits) and, where a \<open>double\<close>
  literal or \<open>ceil\<close> takes part, with \<open>double\<close> (53 significant bits). A finite
  floating-point value is a rational number; an operation delivers the exact result
  rounded to the nearest value with \<open>p\<close> significant bits, ties to even, each
  operation in the type C gives it (\<open>FLT_EVAL_METHOD\<close> 0). The exponent range is not
  modelled: every nonzero value computed by the driver has a magnitude between \<open>2^-26\<close>
  and \<open>2^33\<close>, far from overflow and from the subnormal range.
\<close>

fun bitlen :: "nat \<Rightarrow> nat" where
  "bitlen n = (if n = 0 then 0 else Suc (bitlen (n div 2)))"

declare bitlen.simps [simp del]

text \<open>\<open>fl_exponent a\<close>, for \<open>0 < a\<close>, is the \<open>e\<close> with \<open>2^e \<le> a < 2^(e+1)\<close>.\<close>

definition fl_exponent :: "rat \<Rightarrow> int" where
  "fl_exponent a =
     (if 1 \<le> a then int (bitlen (nat \<lfloor>a\<rfloor>)) - 1
      else - int (bitlen (nat (\<lceil>1 / a\<rceil> - 1))))"

definition round_half_even :: "rat \<Rightarrow> int" where
  "round_half_even q =
     (let f = \<lfloor>q\<rfloor>; r = q - of_int f
      in if r < 1 / 2 then f
         else if 1 / 2 < r then f + 1
         else if even f then f else f + 1)"

definition fl_round :: "nat \<Rightarrow> rat \<Rightarrow> rat" where
  "fl_round p x =
     (if x = 0 then 0
      else let a = \<bar>x\<bar>;
               u = 2 powi (fl_exponent a - int p + 1)
           in sgn x * of_int (round_half_even (a / u)) * u)"

abbreviation to_float :: "rat \<Rightarrow> rat" where
  "to_float \<equiv> fl_round 24"

abbreviation to_double :: "rat \<Rightarrow> rat" where
  "to_double \<equiv> fl_round 53"

section \<open>Data model\<close>

text \<open>
  Names follow the source, without the leading underscore of its static functions;
  a parameter \<open>resolution\<close> is written \<open>res\<close>, the name being taken by the field.
  The \<open>ESP_LOGx\<close> calls write diagnostics to the console and take no part in any
  result; they are left out.
\<close>

text \<open>
  Modelled from the spec: the enumeration \<open>DS18B20_RESOLUTION\<close> of the header
  \<open>ds18b20.h\<close>, which is not among the sources. The resolution is ``one of 9, 10, 11,
  12-bit or invalid/unknown''; the enumerators carry the bit count, as the arithmetic
  \<open>resolution - DS18B20_RESOLUTION_9_BIT\<close> and \<open>DS18B20_RESOLUTION_12_BIT - resolution\<close>
  of the source requires, and the invalid marker lies outside 9..12. A C enumeration
  is an integer type that holds other values than its enumerators as well, and the
  source compares and subtracts resolutions as integers: the type is \<open>int\<close>. (The
  model's integers are unbounded; the one \<open>int\<close> on which the source's arithmetic
  would overflow is the least, in \<open>resolution - 1\<close>.)
\<close>

type_synonym DS18B20_RESOLUTION = int

definition DS18B20_RESOLUTION_INVALID :: DS18B20_RESOLUTION where
  "DS18B20_RESOLUTION_INVALID = - 1"

definition DS18B20_RESOLUTION_9_BIT :: DS18B20_RESOLUTION where
  "DS18B20_RESOLUTION_9_BIT = 9"

definition DS18B20_RESOLUTION_10_BIT :: DS18B20_RESOLUTION where
  "DS18B20_RESOLUTION_10_BIT = 10"

definition DS18B20_RESOLUTION_11_BIT :: DS18B20_RESOLUTION where
  "DS18B20_RESOLUTION_11_BIT = 11"

definition DS18B20_RESOLUTION_12_BIT :: DS18B20_RESOLUTION where
  "DS18B20_RESOLUTION_12_BIT = 12"

text \<open>
  Modelled from the spec: the enumeration \<open>DS18B20_ERROR\<close> of the same header. The source uses
  \<open>DS18B20_OK\<close>, \<open>DS18B20_ERROR_UNKNOWN\<close> (``unclassified failure, used as a safe default
  before a specific cause is determined''), \<open>DS18B20_ERROR_CRC\<close>, \<open>DS18B20_ERROR_OWB\<close>
  (the spec's BusError) and \<open>DS18B20_ERROR_NULL\<close>; \<open>DS18B20_ERROR_DEVICE\<close> stands for the
  spec's NotPresentError (``no device answered a reset'').
\<close>

datatype DS18B20_ERROR =
    DS18B20_OK
  | DS18B20_ERROR_UNKNOWN
  | DS18B20_ERROR_DEVICE
  | DS18B20_ERROR_CRC
  | DS18B20_ERROR_OWB
  | DS18B20_ERROR_NULL

text \<open>
  Modelled from the spec: \<open>OneWireBus_ROMCode\<close>, ``an immutable 64-bit value'', and the
  structure \<open>DS18B20_Info\<close> of the same header, with the fields that the source reads
  and writes. The field \<open>bus\<close> is the reference to the bus collaborator; the model has
  one bus, whose state is passed to every operation, so the record has no such field.
\<close>

type_synonym OneWireBus_ROMCode = "64 word"

record DS18B20_Info =
  init :: bool
  solo :: bool
  use_crc :: bool
  rom_code :: OneWireBus_ROMCode
  resolution :: DS18B20_RESOLUTION

text \<open>
  The source's packed structure \<open>Scratchpad\<close> is read, written and compared through
  \<open>uint8_t\<close> pointers, so it is modelled as its memory image: a list of
  \<open>sizeof(Scratchpad) = 9\<close> bytes with the offsets of the fields.
\<close>

type_synonym Scratchpad = "u8 list"

definition sizeof_Scratchpad :: nat where "sizeof_Scratchpad = 9"
definition offsetof_temperature :: nat where "offsetof_temperature = 0"
definition offsetof_trigger_high :: nat where "offsetof_trigger_high = 2"
definition offsetof_trigger_low :: nat where "offsetof_trigger_low = 3"
definition offsetof_configuration :: nat where "offsetof_configuration = 4"
definition offsetof_reserved :: nat where "offsetof_reserved = 5"
definition offsetof_crc :: nat where "offsetof_crc = 8"

text \<open>\<open>Scratchpad scratchpad = {0}\<close>.\<close>

definition zero_scratchpad :: Scratchpad where
  "zero_scratchpad = replicate sizeof_Scratchpad 0"

definition configuration :: "Scratchpad \<Rightarrow> u8" where
  "configuration sp = sp ! offsetof_configuration"

text \<open>Function commands.\<close>

definition DS18B20_FUNCTION_TEMP_CONVERT :: u8 where "DS18B20_FUNCTION_TEMP_CONVERT = 0x44"
definition DS18B20_FUNCTION_SCRATCHPAD_WRITE :: u8 where "DS18B20_FUNCTION_SCRATCHPAD_WRITE = 0x4E"
definition DS18B20_FUNCTION_SCRATCHPAD_READ :: u8 where "DS18B20_FUNCTION_SCRATCHPAD_READ = 0xBE"

section \<open>The one-wire bus and the tick counter\<close>

text \<open>
  Modelled from the spec: the bus collaborator (\<open>owb.h\<close>) and the FreeRTOS calls are not
  part of the sources. The collaborator offers \<open>reset() -> presence\<close>, \<open>write_byte\<close>,
  \<open>write_bytes\<close>, \<open>read_bytes(count)\<close>, \<open>read_bit\<close>, \<open>write_rom_code\<close> and \<open>crc8\<close>, and
  the ROM commands ``skip ROM'' and ``match ROM'' (\<open>0xCC\<close> and \<open>0x55\<close> on a one-wire
  bus). The driver only tests a returned status for equality with \<open>OWB_STATUS_OK\<close>, so
  one further value stands for every fault.

  The state of the world is the list of operations performed so far, oldest first, and
  the tick counter (\<open>TickType_t\<close>, 32 bits). What the bus and the scheduler answer is a
  parameter \<open>owb_env\<close>: each answer is an arbitrary function of the operations
  performed so far, the current one included. \<open>vTaskDelay n\<close> returns after at least
  \<open>n\<close> ticks; \<open>env_overrun\<close> is the number of further ticks that pass until the
  driver reads the counter again.
\<close>

datatype owb_status = OWB_STATUS_OK | OWB_STATUS_FAULT

definition OWB_ROM_SKIP :: u8 where "OWB_ROM_SKIP = 0xCC"
definition OWB_ROM_MATCH :: u8 where "OWB_ROM_MATCH = 0x55"

datatype owb_op =
    OwbReset
  | OwbWriteByte u8
  | OwbWriteRomCode OneWireBus_ROMCode
  | OwbWriteBytes "u8 list"
  | OwbReadBytes nat
  | OwbReadBit
  | TaskDelay nat

record owb_env =
  portTICK_PERIOD_MS :: u32
  env_present :: "owb_op list \<Rightarrow> bool"
  env_status :: "owb_op list \<Rightarrow> owb_status"
  env_read_byte :: "owb_op list \<Rightarrow> nat \<Rightarrow> u8"
  env_read_bit :: "owb_op list \<Rightarrow> u8"
  env_overrun :: "owb_op list \<Rightarrow> nat"

record sys_state =
  trace :: "owb_op list"
  ticks :: u32

definition perform :: "owb_op \<Rightarrow> sys_state \<Rightarrow> sys_state" where
  "perform op s = s\<lparr>trace := trace s @ [op]\<rparr>"

text \<open>\<open>owb_reset(bus, &present)\<close>; every caller discards the returned status.\<close>

definition owb_reset :: "owb_env \<Rightarrow> sys_state \<Rightarrow> bool \<times> sys_state" where
  "owb_reset env s = (let s' = perform OwbReset s in (env_present env (trace s'), s'))"

definition owb_write_byte :: "owb_env \<Rightarrow> u8 \<Rightarrow> sys_state \<Rightarrow> owb_status \<times> sys_state" where
  "owb_write_byte env b s = (let s' = perform (OwbWriteByte b) s in (env_status env (trace s'), s'))"

definition owb_write_rom_code ::
  "owb_env \<Rightarrow> OneWireBus_ROMCode \<Rightarrow> sys_state \<Rightarrow> owb_status \<times> sys_state" where
  "owb_write_rom_code env code s =
     (let s' = perform (OwbWriteRomCode code) s in (env_status env (trace s'), s'))"

definition owb_write_bytes :: "owb_env \<Rightarrow> u8 list \<Rightarrow> sys_state \<Rightarrow> owb_status \<times> sys_state" where
  "owb_write_bytes env bs s =
     (let s' = perform (OwbWriteBytes bs) s in (env_status env (trace s'), s'))"

text \<open>
  \<open>owb_read_bytes(bus, buffer, len)\<close>: the status, and the \<open>len\<close> bytes that the
  buffer holds afterwards.
\<close>

definition owb_read_bytes ::
  "owb_env \<Rightarrow> nat \<Rightarrow> sys_state \<Rightarrow> owb_status \<times> u8 list \<times> sys_state" where
  "owb_read_bytes env len s =
     (let s' = perform (OwbReadBytes len) s
      in (env_status env (trace s'), map (env_read_byte env (trace s')) [0..<len], s'))"

definition owb_read_bit :: "owb_env \<Rightarrow> sys_state \<Rightarrow> u8 \<times> sys_state" where
  "owb_read_bit env s = (let s' = perform OwbReadBit s in (env_read_bit env (trace s'), s'))"



text \<open>
  Modelled from the spec: \<open>owb_crc8_bytes\<close>, ``CRC-8/MAXIM, polynomial matching the
  one-wire standard'', ``poly 0x31/0x8C reflected'': each data byte is exclusive-ored
  into the register, which is then shifted right eight times, the reflected polynomial
  \<open>0x8C\<close> being exclusive-ored in whenever a one is shifted out.
\<close>

definition crc8_shift :: "u8 \<Rightarrow> u8" where
  "crc8_shift c = (if bit c 0 then drop_bit 1 c XOR 0x8C else drop_bit 1 c)"

definition owb_crc8_byte :: "u8 \<Rightarrow> u8 \<Rightarrow> u8" where
  "owb_crc8_byte crc data = (crc8_shift ^^ 8) (crc XOR data)"

definition owb_crc8_bytes :: "u8 \<Rightarrow> u8 list \<Rightarrow> u8" where
  "owb_crc8_bytes crc data = foldl owb_crc8_byte crc data"

section \<open>Resolution check and temperature decoding\<close>

text \<open>The source's \<open>_check_resolution\<close>.\<close>

definition check_resolution :: "DS18B20_RESOLUTION \<Rightarrow> bool" where
  "check_resolution res \<longleftrightarrow>
     DS18B20_RESOLUTION_9_BIT \<le> res \<and> res \<le> DS18B20_RESOLUTION_12_BIT"

text \<open>The table \<open>lsb_mask\<close> of \<open>_decode_temp\<close>: masks to remove undefined bits.\<close>

definition lsb_mask :: "u8 list" where
  "lsb_mask = [NOT 0x07, NOT 0x03, NOT 0x01, NOT 0x00]"

text \<open>
  The source's \<open>_decode_temp\<close>. \<open>msb << 8\<close> and the \<open>|\<close> are computed in \<open>int\<close>
  (32 bits); the assignment to \<open>int16_t raw\<close> keeps the low 16 bits, read as two's
  complement; \<open>raw / 16.0f\<close> converts \<open>raw\<close> to \<open>float\<close> and divides in \<open>float\<close>.
  The else branch only writes an error message and leaves \<open>result\<close> at its initial
  \<open>0.0f\<close>.
\<close>

definition decode_temp :: "u8 \<Rightarrow> u8 \<Rightarrow> DS18B20_RESOLUTION \<Rightarrow> rat" where
  "decode_temp lsb msb res =
     (if check_resolution res then
        let lsb_masked = (lsb_mask ! nat (res - DS18B20_RESOLUTION_9_BIT)) AND lsb;
            raw = (ucast (push_bit 8 (ucast msb :: u32) OR ucast lsb_masked) :: 16 word)
        in to_float (to_float (of_int (sint raw)) / 16)
      else 0)"

section \<open>Addressing\<close>

text \<open>
  The source's \<open>_is_init\<close>. The handle is a pointer, \<open>None\<close> being \<open>NULL\<close>. The other
  functions take the record itself, the handle of a session being non-null, and call
  \<open>is_init\<close> where the source does.
\<close>

definition is_init :: "DS18B20_Info option \<Rightarrow> bool" where
  "is_init ds18b20_info =
     (case ds18b20_info of
        Some info \<Rightarrow> if init info then True else False
      | None \<Rightarrow> False)"

text \<open>The source's \<open>_address_device\<close>; the statuses of the writes are discarded there.\<close>

definition address_device :: "owb_env \<Rightarrow> DS18B20_Info \<Rightarrow> sys_state \<Rightarrow> bool \<times> sys_state" where
  "address_device env ds18b20_info s =
     (if is_init (Some ds18b20_info) then
        let (present, s1) = owb_reset env s
        in if present then
             if solo ds18b20_info then
               let (st, s2) = owb_write_byte env OWB_ROM_SKIP s1 in (present, s2)
             else
               let (st, s2) = owb_write_byte env OWB_ROM_MATCH s1;
                   (st', s3) = owb_write_rom_code env (rom_code ds18b20_info) s2
               in (present, s3)
           else (present, s1)
      else (False, s))"

section \<open>Scratchpad read and write\<close>

text \<open>The source's \<open>_min\<close>.\<close>

definition min_size :: "nat \<Rightarrow> nat \<Rightarrow> nat" where
  "min_size x y = (if x > y then y else x)"

text \<open>
  The source's \<open>_read_scratchpad\<close>. The buffer is passed by pointer (\<open>None\<close> being
  \<open>NULL\<close>) and returned with the bytes that \<open>owb_read_bytes\<close> stored at its start.
\<close>

definition read_scratchpad ::
  "owb_env \<Rightarrow> DS18B20_Info \<Rightarrow> Scratchpad option \<Rightarrow> nat \<Rightarrow> sys_state
     \<Rightarrow> DS18B20_ERROR \<times> Scratchpad option \<times> sys_state" where
  "read_scratchpad env ds18b20_info scratchpad count s =
     (case scratchpad of
        None \<Rightarrow> (DS18B20_ERROR_NULL, None, s)
      | Some sp \<Rightarrow>
          let count1 = (if use_crc ds18b20_info then sizeof_Scratchpad else count);
              count2 = min_size sizeof_Scratchpad count1;
              (present, s1) = address_device env ds18b20_info s
          in if present then
               let (st, s2) = owb_write_byte env DS18B20_FUNCTION_SCRATCHPAD_READ s1
               in if st = OWB_STATUS_OK then
                    let (st', data, s3) = owb_read_bytes env count2 s2;
                        sp' = data @ drop count2 sp
                    in if st' = OWB_STATUS_OK then
                         if \<not> use_crc ds18b20_info then
                           let (is_present, s4) = owb_reset env s3
                           in (DS18B20_OK, Some sp', s4)
                         else if owb_crc8_bytes 0 (take sizeof_Scratchpad sp') \<noteq> 0 then
                           (DS18B20_ERROR_CRC, Some sp', s3)
                         else (DS18B20_OK, Some sp', s3)
                       else (DS18B20_ERROR_OWB, Some sp', s3)
                  else (DS18B20_ERROR_OWB, Some sp, s2)
             else (DS18B20_ERROR_UNKNOWN, Some sp, s1))"

text \<open>
  The source's \<open>_write_scratchpad\<close>: bytes 2, 3 and 4 are written, and compared by
  \<open>memcmp\<close> with the bytes read back when \<open>verify\<close> is set.
\<close>

definition write_scratchpad ::
  "owb_env \<Rightarrow> DS18B20_Info \<Rightarrow> Scratchpad \<Rightarrow> bool \<Rightarrow> sys_state \<Rightarrow> bool \<times> sys_state" where
  "write_scratchpad env ds18b20_info scratchpad verify s =
     (if is_init (Some ds18b20_info) then
        let (present, s1) = address_device env ds18b20_info s
        in if present then
             let (st, s2) = owb_write_byte env DS18B20_FUNCTION_SCRATCHPAD_WRITE s1;
                 (st', s3) = owb_write_bytes env (take 3 (drop offsetof_trigger_high scratchpad)) s2
             in if verify then
                  let (err, rd, s4) =
                        read_scratchpad env ds18b20_info (Some zero_scratchpad)
                          (offsetof_configuration + 1) s3
                  in if err = DS18B20_OK then
                       if take 3 (drop offsetof_trigger_high scratchpad)
                            \<noteq> take 3 (drop offsetof_trigger_high (the rd))
                       then (False, s4)
                       else (True, s4)
                     else (False, s4)
                else (True, s3)
           else (False, s1)
      else (False, s))"

section \<open>Resolution management\<close>

text \<open>
  The source's \<open>ds18b20_read_resolution\<close>. The error returned by \<open>_read_scratchpad\<close>
  is not looked at. The configuration byte is promoted to \<open>int\<close> before the shift.
\<close>

definition ds18b20_read_resolution ::
  "owb_env \<Rightarrow> DS18B20_Info \<Rightarrow> sys_state \<Rightarrow> DS18B20_RESOLUTION \<times> sys_state" where
  "ds18b20_read_resolution env ds18b20_info s =
     (if is_init (Some ds18b20_info) then
        let (err, rd, s1) =
              read_scratchpad env ds18b20_info (Some zero_scratchpad)
                (offsetof_configuration - offsetof_temperature + 1) s;
            scratchpad = the rd;
            res = (drop_bit 5 (uint (configuration scratchpad)) AND 0x03)
                    + DS18B20_RESOLUTION_9_BIT
        in if \<not> check_resolution res then (DS18B20_RESOLUTION_INVALID, s1)
           else (res, s1)
      else (DS18B20_RESOLUTION_INVALID, s))"

text \<open>
  The configuration value of \<open>ds18b20_set_resolution\<close>,
  \<open>(((resolution - 1) & 0x03) << 5) | 0x1f\<close>, computed in \<open>int\<close> and stored in a
  \<open>uint8_t\<close>.
\<close>

definition configuration_value :: "DS18B20_RESOLUTION \<Rightarrow> u8" where
  "configuration_value res = word_of_int (push_bit 5 ((res - 1) AND 0x03) OR 0x1f)"

text \<open>
  The source's \<open>ds18b20_set_resolution\<close>; it returns \<open>result\<close> and the session with
  its cached resolution as the call leaves it.
\<close>

definition ds18b20_set_resolution ::
  "owb_env \<Rightarrow> DS18B20_Info \<Rightarrow> DS18B20_RESOLUTION \<Rightarrow> sys_state
     \<Rightarrow> bool \<times> DS18B20_Info \<times> sys_state" where
  "ds18b20_set_resolution env ds18b20_info res s =
     (if is_init (Some ds18b20_info) then
        if check_resolution (resolution ds18b20_info) then
          let (err, rd, s1) =
                read_scratchpad env ds18b20_info (Some zero_scratchpad)
                  (offsetof_configuration - offsetof_temperature + 1) s;
              scratchpad = (the rd)[offsetof_configuration := configuration_value res];
              (result, s2) = write_scratchpad env ds18b20_info scratchpad True s1
          in if result then (result, ds18b20_info\<lparr>resolution := res\<rparr>, s2)
             else
               let (res', s3) = ds18b20_read_resolution env ds18b20_info s2
               in (result, ds18b20_info\<lparr>resolution := res'\<rparr>, s3)
        else (False, ds18b20_info, s)
      else (False, ds18b20_info, s))"

section \<open>Construction\<close>

text \<open>The source's \<open>_init\<close>, for a handle that is not \<open>NULL\<close>.\<close>

definition init_info :: "DS18B20_Info \<Rightarrow> DS18B20_Info" where
  "init_info ds18b20_info =
     ds18b20_info\<lparr>rom_code := 0, use_crc := False, resolution := DS18B20_RESOLUTION_INVALID,
       solo := False, init := True\<rparr>"

text \<open>The source's \<open>ds18b20_init\<close> and \<open>ds18b20_init_solo\<close>, for such a handle.\<close>

definition ds18b20_init ::
  "owb_env \<Rightarrow> DS18B20_Info \<Rightarrow> OneWireBus_ROMCode \<Rightarrow> sys_state \<Rightarrow> DS18B20_Info \<times> sys_state" where
  "ds18b20_init env ds18b20_info code s =
     (let info1 = (init_info ds18b20_info)\<lparr>rom_code := code\<rparr>;
          (res, s1) = ds18b20_read_resolution env info1 s
      in (info1\<lparr>resolution := res\<rparr>, s1))"

definition ds18b20_init_solo ::
  "owb_env \<Rightarrow> DS18B20_Info \<Rightarrow> sys_state \<Rightarrow> DS18B20_Info \<times> sys_state" where
  "ds18b20_init_solo env ds18b20_info s =
     (let info1 = (init_info ds18b20_info)\<lparr>solo := True\<rparr>;
          (res, s1) = ds18b20_read_resolution env info1 s
      in (info1\<lparr>resolution := res\<rparr>, s1))"

section \<open>Waiting for a conversion\<close>

text \<open>\<open>T_CONV\<close>: maximum conversion time at 12-bit resolution in milliseconds.\<close>

definition T_CONV :: int where
  "T_CONV = 750"

text \<open>
  The first lines of \<open>_wait_for_conversion\<close>. \<open>divisor\<close> is an \<open>int\<close>;
  \<open>(float)T_CONV / (float)divisor\<close> is a \<open>float\<close> division; the literal \<open>1.1\<close> is a
  \<open>double\<close>, so the product is computed in \<open>double\<close> and rounded to \<open>float\<close> by the
  assignment. \<open>portTICK_PERIOD_MS\<close> is a \<open>TickType_t\<close> constant of the FreeRTOS
  configuration (\<open>1000 / configTICK_RATE_HZ\<close>, hence between 1 and 1000 when it is not
  zero), converted to \<open>float\<close> for the division; \<open>ceil\<close> is exact, and so is the
  conversion of its result to \<open>int\<close>. With a tick period of zero the source divides
  by zero; the properties below are about tick periods that are not zero.
\<close>

definition divisor :: "DS18B20_RESOLUTION \<Rightarrow> int" where
  "divisor res = push_bit (nat (DS18B20_RESOLUTION_12_BIT - res)) 1"

definition max_conversion_time :: "DS18B20_RESOLUTION \<Rightarrow> rat" where
  "max_conversion_time res =
     to_float (to_double
       (to_float (to_float (of_int T_CONV) / to_float (of_int (divisor res)))
          * to_double (11 / 10)))"







section \<open>The specification's reading of the decoding\<close>

text \<open>
  The specification of the decoding: the mask ``keeps the top 5/6/7/8 bits of lsb for
  9/10/11/12-bit'', and the temperature is the two's-complement reading of the 16-bit
  value \<open>(msb << 8) | (lsb AND mask)\<close>, divided by 16.
\<close>

definition spec_kept_bits :: "DS18B20_RESOLUTION \<Rightarrow> nat" where
  "spec_kept_bits res = (if res = 9 then 5 else if res = 10 then 6 else if res = 11 then 7 else 8)"

definition spec_mask :: "DS18B20_RESOLUTION \<Rightarrow> u8" where
  "spec_mask res = push_bit (8 - spec_kept_bits res) (mask (spec_kept_bits res))"

definition spec_decode :: "u8 \<Rightarrow> u8 \<Rightarrow> DS18B20_RESOLUTION \<Rightarrow> rat" where
  "spec_decode lsb msb res =
     of_int (sint (push_bit 8 (ucast msb) OR ucast (lsb AND spec_mask res) :: 16 word)) / 16"

section \<open>Histories and simulated devices\<close>

text \<open>
  The operations by which \<open>_address_device\<close> selects the device once it is present.
\<close>

definition selection :: "DS18B20_Info \<Rightarrow> owb_op list" where
  "selection ds18b20_info =
     (if solo ds18b20_info then [OwbWriteByte OWB_ROM_SKIP]
      else [OwbWriteByte OWB_ROM_MATCH, OwbWriteRomCode (rom_code ds18b20_info)])"

text \<open>
  The history in which a scratchpad read of \<open>n\<close> bytes, started in state \<open>s\<close> with the
  device present, receives its bytes.
\<close>

definition read_history :: "DS18B20_Info \<Rightarrow> sys_state \<Rightarrow> nat \<Rightarrow> owb_op list" where
  "read_history ds18b20_info s n =
     trace s @ OwbReset # selection ds18b20_info
       @ [OwbWriteByte DS18B20_FUNCTION_SCRATCHPAD_READ, OwbReadBytes n]"


text \<open>The bytes last written to the scratchpad in a history, if any.\<close>

fun last_written :: "owb_op list \<Rightarrow> u8 list option" where
  "last_written [] = None"
| "last_written (op # ops) =
     (case last_written ops of
        Some bs \<Rightarrow> Some bs
      | None \<Rightarrow> (case op of OwbWriteBytes bs \<Rightarrow> Some bs | _ \<Rightarrow> None))"

text \<open>
  A device that honours writes, on a bus without faults: it is always present, every
  transfer succeeds, every read delivers nine bytes whose CRC is zero, and bytes 2, 3
  and 4 are the three bytes last written.
\<close>

definition honours_writes :: "owb_env \<Rightarrow> bool" where
  "honours_writes env \<longleftrightarrow>
     (\<forall>h. env_present env h \<and> env_status env h = OWB_STATUS_OK \<and>
          owb_crc8_bytes 0 (map (env_read_byte env h) [0..<sizeof_Scratchpad]) = 0 \<and>
          (\<forall>a b c. last_written h = Some [a, b, c] \<longrightarrow>
             map (env_read_byte env h) [2..<5] = [a, b, c]))"

text \<open>
  Simulated devices for the examples. \<open>power_on_scratchpad\<close> holds the first eight
  bytes that a DS18B20 reports after power-on (85 degrees, 12 bits); \<open>sim_device\<close>
  honours writes and has finished its conversion; \<open>busy_device\<close> never signals the
  end of a conversion; \<open>noisy_device\<close> delivers a scratchpad with one bit flipped;
  \<open>absent_device\<close> never answers a reset. The tick period is 10 ms.
\<close>

definition power_on_scratchpad :: "u8 list" where
  "power_on_scratchpad = [0x50, 0x05, 0x4B, 0x46, 0x7F, 0xFF, 0x0C, 0x10]"

definition sim_scratchpad :: "owb_op list \<Rightarrow> u8 list" where
  "sim_scratchpad h =
     (let body = (case last_written h of
                    Some bs \<Rightarrow>
                      take 2 power_on_scratchpad @ take 3 (bs @ [0, 0, 0])
                        @ drop 5 power_on_scratchpad
                  | None \<Rightarrow> power_on_scratchpad)
      in body @ [owb_crc8_bytes 0 body])"

definition sim_device :: owb_env where
  "sim_device =
     \<lparr>portTICK_PERIOD_MS = 10,
      env_present = (\<lambda>h. True),
      env_status = (\<lambda>h. OWB_STATUS_OK),
      env_read_byte = (\<lambda>h i. sim_scratchpad h ! i),
      env_read_bit = (\<lambda>h. 1),
      env_overrun = (\<lambda>h. 0)\<rparr>"


definition noisy_device :: owb_env where
  "noisy_device = sim_device\<lparr>env_read_byte := (\<lambda>h i. (sim_scratchpad h)[0 := 0x51] ! i)\<rparr>"

definition absent_device :: owb_env where
  "absent_device = sim_device\<lparr>env_present := (\<lambda>h. False)\<rparr>"

definition session :: DS18B20_Info where
  "session =
     \<lparr>init = True, solo = False, use_crc = True, rom_code = 0x28AABBCCDDEEFF10,
      resolution = DS18B20_RESOLUTION_12_BIT\<rparr>"

definition solo_session :: DS18B20_Info where
  "solo_session = session\<lparr>solo := True, use_crc := False\<rparr>"

definition idle :: sys_state where
  "idle = \<lparr>trace = [], ticks = 0\<rparr>"

section \<open>Unfolding rules\<close>

lemmas resolution_defs =
  DS18B20_RESOLUTION_INVALID_def DS18B20_RESOLUTION_9_BIT_def DS18B20_RESOLUTION_10_BIT_def
  DS18B20_RESOLUTION_11_BIT_def DS18B20_RESOLUTION_12_BIT_def

lemmas layout_defs =
  sizeof_Scratchpad_def offsetof_temperature_def offsetof_trigger_high_def
  offsetof_trigger_low_def offsetof_configuration_def offsetof_reserved_def offsetof_crc_def

lemmas bus_defs =
  owb_reset_def owb_write_byte_def owb_write_rom_code_def owb_write_bytes_def
  owb_read_bytes_def owb_read_bit_def perform_def

section \<open>Properties of the rounding\<close>

lemma bitlen_bounds: "0 < n \<Longrightarrow> 2 ^ (bitlen n - 1) \<le> n \<and> n < 2 ^ bitlen n"
proof (induction n rule: bitlen.induct)
  case (1 n)
  show ?case
  proof (cases "n div 2 = 0")
    case True
    with 1(2) have "n = 1" by presburger
    then show ?thesis by (simp add: bitlen.simps [of "Suc 0"] bitlen.simps [of 0])
  next
    case False
    then have pos: "0 < n div 2" by simp
    from 1(2) have n0: "n \<noteq> 0" by simp
    from 1(1) [OF n0 pos] have ih: "2 ^ (bitlen (n div 2) - 1) \<le> n div 2" "n div 2 < 2 ^ bitlen (n div 2)"
      by simp_all
    have bl: "bitlen n = Suc (bitlen (n div 2))" using n0 by (simp add: bitlen.simps [of n])
    have blpos: "0 < bitlen (n div 2)" using pos by (simp add: bitlen.simps [of "n div 2"])
    then have "(2::nat) ^ bitlen (n div 2) = 2 * 2 ^ (bitlen (n div 2) - 1)"
      by (cases "bitlen (n div 2)") simp_all
    with ih(1) have lo: "2 ^ bitlen (n div 2) \<le> n" by presburger
    from ih(2) have "n < 2 * 2 ^ bitlen (n div 2)" by presburger
    with lo show ?thesis by (simp add: bl)
  qed
qed

lemma fl_exponent_bounds:
  assumes "0 < a"
  shows "2 powi fl_exponent a \<le> a" and "a < 2 powi (fl_exponent a + 1)"
proof -
  have "2 powi fl_exponent a \<le> a \<and> a < 2 powi (fl_exponent a + 1)"
  proof (cases "1 \<le> a")
    case True
    define n where "n = nat \<lfloor>a\<rfloor>"
    have n1: "0 < n" using True by (simp add: n_def)
    have e: "fl_exponent a = int (bitlen n) - 1" using True by (simp add: fl_exponent_def n_def)
    from bitlen_bounds [OF n1] have b: "2 ^ (bitlen n - 1) \<le> n" "n < 2 ^ bitlen n" by simp_all
    have blpos: "0 < bitlen n" using n1 by (simp add: bitlen.simps [of n])
    have na: "rat_of_nat n \<le> a" using True by (simp add: n_def)
    have an: "a < rat_of_nat n + 1" using True by (simp add: n_def) linarith
    have p1: "(2::rat) powi (int (bitlen n) - 1) = 2 ^ (bitlen n - 1)"
      using blpos by (simp add: power_int_def nat_diff_distrib')
    have p2: "(2::rat) powi (int (bitlen n) - 1 + 1) = 2 ^ bitlen n"
      by simp
    have lo: "(2::rat) ^ (bitlen n - 1) \<le> rat_of_nat n"
      using b(1) by (metis of_nat_le_iff of_nat_numeral of_nat_power)
    have up: "rat_of_nat n + 1 \<le> 2 ^ bitlen n"
    proof -
      from b(2) have "n + 1 \<le> 2 ^ bitlen n" by simp
      then have "rat_of_nat (n + 1) \<le> rat_of_nat (2 ^ bitlen n)" by (simp only: of_nat_le_iff)
      then show ?thesis by simp
    qed
    have "(2::rat) powi fl_exponent a \<le> a" unfolding e p1 using lo na by linarith
    moreover have "a < (2::rat) powi (fl_exponent a + 1)" unfolding e p2 using up an by linarith
    ultimately show ?thesis ..
  next
    case False
    define y where "y = 1 / a"
    define m where "m = nat (\<lceil>y\<rceil> - 1)"
    from False assms have y1: "1 < y" by (simp add: y_def)
    then have cy: "2 \<le> \<lceil>y\<rceil>" by linarith
    then have m1: "0 < m" by (simp add: m_def)
    have e: "fl_exponent a = - int (bitlen m)" using False by (simp add: fl_exponent_def m_def y_def)
    from bitlen_bounds [OF m1] have b: "2 ^ (bitlen m - 1) \<le> m" "m < 2 ^ bitlen m" by simp_all
    have blpos: "0 < bitlen m" using m1 by (simp add: bitlen.simps [of m])
    have my: "rat_of_nat m < y" using cy by (simp add: m_def) linarith
    have ym: "y \<le> rat_of_nat m + 1" using cy by (simp add: m_def)
    have up: "rat_of_nat m + 1 \<le> 2 ^ bitlen m"
    proof -
      from b(2) have "m + 1 \<le> 2 ^ bitlen m" by simp
      then have "rat_of_nat (m + 1) \<le> rat_of_nat (2 ^ bitlen m)" by (simp only: of_nat_le_iff)
      then show ?thesis by simp
    qed
    have lo: "(2::rat) ^ (bitlen m - 1) \<le> rat_of_nat m"
      using b(1) by (metis of_nat_le_iff of_nat_numeral of_nat_power)
    have p1: "(2::rat) powi (- int (bitlen m)) = 1 / 2 ^ bitlen m"
      by (simp add: power_int_def field_simps)
    have p2: "(2::rat) powi (- int (bitlen m) + 1) = 1 / 2 ^ (bitlen m - 1)"
      using blpos by (cases "bitlen m") (simp_all add: power_int_def field_simps)
    have "y \<le> 2 ^ bitlen m" using ym up by linarith
    then have A: "1 / 2 ^ bitlen m \<le> a" using assms by (simp add: y_def field_simps)
    have "(2::rat) ^ (bitlen m - 1) < y" using lo my by linarith
    then have B: "a < 1 / 2 ^ (bitlen m - 1)" using assms by (simp add: y_def field_simps)
    have "(2::rat) powi fl_exponent a \<le> a" unfolding e p1 using A .
    moreover have "a < (2::rat) powi (fl_exponent a + 1)" unfolding e p2 using B .
    ultimately show ?thesis ..
  qed
  then show "2 powi fl_exponent a \<le> a" and "a < 2 powi (fl_exponent a + 1)" by simp_all
qed

lemma round_half_even_of_int: "round_half_even (of_int k) = k"
  by (simp add: round_half_even_def)


lemma fl_round_exact:
  assumes x: "x = of_int m * 2 powi j" and bound: "\<bar>x\<bar> < 2 powi (j + int p)"
  shows "fl_round p x = x"
proof (cases "x = 0")
  case True
  then show ?thesis by (simp add: fl_round_def)
next
  case False
  define a where "a = \<bar>x\<bar>"
  define e where "e = fl_exponent a"
  define u :: rat where "u = 2 powi (e - int p + 1)"
  have apos: "0 < a" using False by (simp add: a_def)
  have upos: "0 < u" by (simp add: u_def)
  have "2 powi e \<le> a" unfolding e_def by (rule fl_exponent_bounds(1) [OF apos])
  with bound have lt: "(2::rat) powi e < 2 powi (j + int p)" by (simp add: a_def)
  have "e < j + int p"
  proof (rule ccontr)
    assume "\<not> e < j + int p"
    then have "j + int p \<le> e" by simp
    then have "(2::rat) powi (j + int p) \<le> 2 powi e" by (intro power_int_increasing) simp_all
    with lt show False by simp
  qed
  then have k0: "0 \<le> j - (e - int p + 1)" by simp
  define k where "k = nat (j - (e - int p + 1))"
  have jk: "j = (e - int p + 1) + int k" using k0 by (simp add: k_def)
  have pj: "(2::rat) powi j = u * 2 ^ k"
    unfolding u_def by (subst jk, subst power_int_add) simp_all
  have am: "a = of_int (\<bar>m\<bar> * 2 ^ k) * u"
    using upos by (simp add: a_def x abs_mult pj)
  have "a / u = of_int (\<bar>m\<bar> * 2 ^ k)" using upos by (simp add: am)
  then have r: "round_half_even (a / u) = \<bar>m\<bar> * 2 ^ k"
    by (simp only: round_half_even_of_int)
  have "fl_round p x = sgn x * of_int (round_half_even (a / u)) * u"
    using False by (simp add: fl_round_def Let_def a_def e_def u_def)
  also have "\<dots> = sgn x * (of_int (\<bar>m\<bar> * 2 ^ k) * u)" by (simp only: r mult.assoc)
  also have "\<dots> = sgn x * a" by (simp only: am [symmetric])
  also have "\<dots> = x" by (simp add: a_def sgn_mult_abs)
  finally show ?thesis .
qed



lemma bitlen_numeral:
  "bitlen 0 = 0"
  "bitlen 1 = 1"
  "bitlen (Suc 0) = 1"
  "bitlen (numeral Num.One) = 1"
  "bitlen (numeral (Num.Bit0 n)) = Suc (bitlen (numeral n))"
  "bitlen (numeral (Num.Bit1 n)) = Suc (bitlen (numeral n))"
proof -
  show "bitlen 0 = 0" by (simp add: bitlen.simps)
  show b1: "bitlen (Suc 0) = 1" by (simp add: bitlen.simps [of "Suc 0"] bitlen.simps [of 0])
  then show "bitlen 1 = 1" by simp
  show "bitlen (numeral Num.One) = 1" using b1 by simp
  have "numeral (Num.Bit0 n) div (2::nat) = numeral n" by simp
  then show "bitlen (numeral (Num.Bit0 n)) = Suc (bitlen (numeral n))"
    by (simp add: bitlen.simps [of "numeral (Num.Bit0 n)"])
  have "numeral (Num.Bit1 n) div (2::nat) = numeral n" by simp
  then show "bitlen (numeral (Num.Bit1 n)) = Suc (bitlen (numeral n))"
    by (simp add: bitlen.simps [of "numeral (Num.Bit1 n)"])
qed

text \<open>Rules that let the simplifier evaluate a rounding of a numeral.\<close>

lemma floor_rat_numeral: "\<lfloor>numeral a / numeral b :: rat\<rfloor> = numeral a div numeral b"
  by (metis floor_divide_of_int_eq of_int_numeral)
lemma ceiling_rat_numeral: "\<lceil>numeral a / numeral b :: rat\<rceil> = - (- numeral a div numeral b)"
  using ceiling_divide_eq_div [of "numeral a" "numeral b", where ?'a = rat] by simp
lemmas fl_eval = fl_round_def fl_exponent_def round_half_even_def Let_def power_int_def bitlen_numeral
  floor_rat_numeral ceiling_rat_numeral power_one_over

text \<open>
  The rounding on known values: \<open>1.1f\<close> and \<open>1.1\<close> as C compilers store them, and
  ties between two neighbours going to the even one.
\<close>

lemma fl_round_examples:
  "to_float (11 / 10) = 9227469 / 8388608"
  "to_double (11 / 10) = 2476979795053773 / 2251799813685248"
  "to_float 16777217 = 16777216"
  "to_float 16777219 = 16777220"
  "to_float (- 16777217) = - 16777216"
  "to_float (1 / 3) = 11184811 / 33554432"
  by (simp_all add: fl_eval)

section \<open>Temperature decoding\<close>

lemma check_resolution_cases:
  "check_resolution res \<longleftrightarrow> res = 9 \<or> res = 10 \<or> res = 11 \<or> res = 12"
  by (auto simp: check_resolution_def resolution_defs)

lemma to_float_of_int16:
  fixes raw :: "16 word"
  shows "to_float (of_int (sint raw)) = of_int (sint raw)"
proof (rule fl_round_exact [where m = "sint raw" and j = 0])
  show "rat_of_int (sint raw) = rat_of_int (sint raw) * 2 powi 0" by simp
  have "- (2 ^ 15) \<le> sint raw" "sint raw < 2 ^ 15"
    using sint_ge [of raw] sint_lt [of raw] by simp_all
  then have "\<bar>sint raw\<bar> < 2 ^ 24" by simp
  then have "rat_of_int \<bar>sint raw\<bar> < rat_of_int (2 ^ 24)" by (simp only: of_int_less_iff)
  then show "\<bar>rat_of_int (sint raw)\<bar> < 2 powi (0 + int 24)" by simp
qed

lemma to_float_sixteenth:
  fixes raw :: "16 word"
  shows "to_float (of_int (sint raw) / 16) = of_int (sint raw) / 16"
proof (rule fl_round_exact [where m = "sint raw" and j = "- 4"])
  show "rat_of_int (sint raw) / 16 = rat_of_int (sint raw) * 2 powi (- 4)"
    by (simp add: power_int_minus field_simps)
  have "- (2 ^ 15) \<le> sint raw" "sint raw < 2 ^ 15"
    using sint_ge [of raw] sint_lt [of raw] by simp_all
  then have "\<bar>sint raw\<bar> < 2 ^ 24" by simp
  then have "rat_of_int \<bar>sint raw\<bar> < rat_of_int (2 ^ 24)" by (simp only: of_int_less_iff)
  then show "\<bar>rat_of_int (sint raw) / 16\<bar> < 2 powi (- 4 + int 24)" by simp
qed

lemma to_float_signed16:
  fixes raw :: "16 word"
  shows "to_float (signed raw) = signed raw"
  using to_float_of_int16 [of raw] by simp

lemma to_float_signed_sixteenth:
  fixes raw :: "16 word"
  shows "to_float (signed raw / 16) = signed raw / 16"
  using to_float_sixteenth [of raw] by simp

lemma raw_truncate:
  fixes msb l :: u8
  shows "(ucast (push_bit 8 (ucast msb :: u32) OR ucast l) :: 16 word) = push_bit 8 (ucast msb) OR ucast l"
  by (rule bit_word_eqI) (auto simp: bit_simps)

lemma lsb_mask_spec:
  assumes "check_resolution res"
  shows "lsb_mask ! nat (res - DS18B20_RESOLUTION_9_BIT) = spec_mask res"
proof -
  from assms have "res = 9 \<or> res = 10 \<or> res = 11 \<or> res = 12"
    by (simp add: check_resolution_def resolution_defs) arith
  then show ?thesis
    by (elim disjE) (simp_all add: lsb_mask_def spec_mask_def spec_kept_bits_def resolution_defs mask_eq_exp_minus_1)
qed

lemma decode_temp_valid:
  assumes "check_resolution res"
  shows "decode_temp lsb msb res = spec_decode lsb msb res"
  using assms
  by (simp add: decode_temp_def spec_decode_def Let_def lsb_mask_spec raw_truncate
      to_float_signed16 to_float_signed_sixteenth and.commute)

lemma decode_temp_invalid: "\<not> check_resolution res \<Longrightarrow> decode_temp lsb msb res = 0"
  by (simp add: decode_temp_def)

text \<open>
  Claim C2. For every resolution of 9, 10, 11 and 12 bits and all bytes \<open>lsb\<close>, \<open>msb\<close>,
  the decoded temperature is the two's-complement reading of the 16-bit value
  \<open>(msb << 8) | (lsb AND mask)\<close> divided by 16, the mask keeping the top 5, 6, 7, 8 bits
  of \<open>lsb\<close>; the bits that the mask clears never affect the result, and in particular
  \<open>0xFF, 0x00\<close> and \<open>0xF8, 0x00\<close> decode to the same value at 9 bits. The two
  \<open>float\<close> operations of the source are exact here.
\<close>

theorem decode_temp_refines_spec:
  "(\<forall>res \<in> {9, 10, 11, 12}. \<forall>lsb msb.
      decode_temp lsb msb res = spec_decode lsb msb res \<and>
      decode_temp (lsb AND spec_mask res) msb res = decode_temp lsb msb res)
   \<and> decode_temp 0xFF 0x00 DS18B20_RESOLUTION_9_BIT = decode_temp 0xF8 0x00 DS18B20_RESOLUTION_9_BIT"
proof (intro conjI ballI allI)
  fix res :: int and lsb msb :: u8
  assume "res \<in> {9, 10, 11, 12}"
  then have ok: "check_resolution res" by (auto simp: check_resolution_def resolution_defs)
  show "decode_temp lsb msb res = spec_decode lsb msb res" by (rule decode_temp_valid [OF ok])
  show "decode_temp (lsb AND spec_mask res) msb res = decode_temp lsb msb res"
    by (simp add: decode_temp_valid [OF ok] spec_decode_def and.assoc)
next
  have ok: "check_resolution DS18B20_RESOLUTION_9_BIT" by (simp add: check_resolution_def resolution_defs)
  have m: "spec_mask DS18B20_RESOLUTION_9_BIT = 0xF8"
    by (simp add: spec_mask_def spec_kept_bits_def resolution_defs mask_eq_exp_minus_1)
  show "decode_temp 0xFF 0x00 DS18B20_RESOLUTION_9_BIT = decode_temp 0xF8 0x00 DS18B20_RESOLUTION_9_BIT"
    by (simp add: decode_temp_valid [OF ok] spec_decode_def m)
qed

theorem decode_temp_refines_spec_witness:
  "(12::int) \<in> {9, 10, 11, 12} \<and> decode_temp 0x50 0x05 12 = 85 \<and> decode_temp 0x5F 0x05 9 = 85.5
    \<and> decode_temp 0x5E 0xFF 11 = - 10.125"
  using decode_temp_refines_spec [THEN conjunct1, THEN bspec, of 12, THEN spec, THEN spec, of "0x50" "0x05"]
    decode_temp_refines_spec [THEN conjunct1, THEN bspec, of 9, THEN spec, THEN spec, of "0x5F" "0x05"]
    decode_temp_refines_spec [THEN conjunct1, THEN bspec, of 11, THEN spec, THEN spec, of "0x5E" "0xFF"]
  by (simp add: spec_decode_def spec_mask_def spec_kept_bits_def mask_eq_exp_minus_1)

text \<open>
  Claim C8, as amended. For every invalid resolution and all bytes, \<open>_decode_temp\<close>
  applies no mask and returns \<open>0.0\<close> whatever the bytes are; this value is not
  distinguishable from a decoded temperature, being what \<open>lsb = msb = 0\<close> decodes to at
  a valid resolution.
\<close>

theorem decode_temp_invalid_resolution:
  "\<not> check_resolution res \<Longrightarrow>
     decode_temp lsb msb res = 0 \<and>
     decode_temp lsb msb res = decode_temp 0 0 DS18B20_RESOLUTION_12_BIT"
  by (simp add: decode_temp_invalid decode_temp_valid spec_decode_def check_resolution_cases resolution_defs)

theorem decode_temp_invalid_resolution_witness:
  "\<not> check_resolution 13 \<and> decode_temp 0x50 0x05 13 = 0
    \<and> \<not> check_resolution DS18B20_RESOLUTION_INVALID \<and> decode_temp 0xFF 0x7F DS18B20_RESOLUTION_INVALID = 0"
  using decode_temp_invalid_resolution [of 13 "0x50" "0x05"]
    decode_temp_invalid_resolution [of DS18B20_RESOLUTION_INVALID "0xFF" "0x7F"]
  by (simp add: check_resolution_cases resolution_defs)

text \<open>
  Claim C8 as stated fails: the value returned for the invalid marker is the value
  successfully decoded from \<open>lsb = msb = 0\<close> at 12 bits.
\<close>

theorem decode_temp_sentinel_counterexample:
  "\<not> check_resolution DS18B20_RESOLUTION_INVALID \<and> check_resolution DS18B20_RESOLUTION_12_BIT \<and>
   decode_temp 0x50 0x05 DS18B20_RESOLUTION_INVALID = decode_temp 0x00 0x00 DS18B20_RESOLUTION_12_BIT"
  by (simp add: decode_temp_invalid decode_temp_valid spec_decode_def check_resolution_cases resolution_defs)

section \<open>The bound of the wait\<close>

lemma max_conversion_time_values:
  "max_conversion_time 9 = 825 / 8" "max_conversion_time 10 = 825 / 4"
  "max_conversion_time 11 = 825 / 2" "max_conversion_time 12 = 825"
  by (simp_all add: max_conversion_time_def divisor_def T_CONV_def resolution_defs fl_eval)

text \<open>
  Claim C6. For every valid cached resolution \<open>r\<close> the maximum wait computed by
  \<open>_wait_for_conversion\<close> is \<open>750 ms / 2^(12 - r) * 1.1\<close>, and the bound at 9 bits is
  exactly one eighth of the bound at 12 bits. The value is the one the \<open>float\<close> and
  \<open>double\<close> operations of the source deliver: their roundings cancel.
\<close>

theorem max_conversion_time_formula:
  "(\<forall>res \<in> {9, 10, 11, 12}. max_conversion_time res = 750 / 2 ^ nat (12 - res) * (11 / 10))
   \<and> max_conversion_time DS18B20_RESOLUTION_9_BIT = max_conversion_time DS18B20_RESOLUTION_12_BIT / 8"
  by (simp add: max_conversion_time_values resolution_defs)

theorem max_conversion_time_formula_witness:
  "(9::int) \<in> {9, 10, 11, 12} \<and> check_resolution 9 \<and> max_conversion_time 9 = 103.125
    \<and> max_conversion_time 12 = 825"
  using max_conversion_time_formula [THEN conjunct1, THEN bspec, of 9]
    max_conversion_time_formula [THEN conjunct1, THEN bspec, of 12]
  by (simp add: check_resolution_cases)

section \<open>Addressing the device\<close>

lemma is_init_Some: "is_init (Some info) = init info"
  by (simp add: is_init_def)

lemma address_device_init:
  assumes "init info"
  shows "address_device env info s =
           (env_present env (trace s @ [OwbReset]),
            s\<lparr>trace := trace s @ OwbReset #
                  (if env_present env (trace s @ [OwbReset]) then selection info else [])\<rparr>)"
  using assms by (simp add: address_device_def is_init_Some bus_defs selection_def Let_def)

lemma address_device_not_init:
  "\<not> init info \<Longrightarrow> address_device env info s = (False, s)"
  by (simp add: address_device_def is_init_Some)


text \<open>
  Claim C5. For every initialised session, addressing resets the bus and then: with
  \<open>solo\<close> set it sends the skip-ROM command and never a ROM code; otherwise it sends
  the match-ROM command followed by the configured 64-bit identity as it is; and when
  no device is present after the reset it returns false and sends nothing more.
\<close>

theorem address_device_commands:
  assumes "init info"
  shows "(let (present, s') = address_device env info s
          in present = env_present env (trace s @ [OwbReset]) \<and>
             ticks s' = ticks s \<and>
             trace s' = trace s @
               (if \<not> present then [OwbReset]
                else if solo info then [OwbReset, OwbWriteByte OWB_ROM_SKIP]
                else [OwbReset, OwbWriteByte OWB_ROM_MATCH, OwbWriteRomCode (rom_code info)]) \<and>
             (solo info \<longrightarrow>
                (\<forall>code. OwbWriteRomCode code \<notin> set (drop (length (trace s)) (trace s')))))"
  using assms by (simp add: address_device_init selection_def)

theorem address_device_commands_witness:
  "init session \<and> init solo_session \<and>
   address_device sim_device session idle =
     (True, \<lparr>trace = [OwbReset, OwbWriteByte 0x55, OwbWriteRomCode 0x28AABBCCDDEEFF10], ticks = 0\<rparr>) \<and>
   address_device sim_device solo_session idle =
     (True, \<lparr>trace = [OwbReset, OwbWriteByte 0xCC], ticks = 0\<rparr>) \<and>
   address_device absent_device session idle = (False, \<lparr>trace = [OwbReset], ticks = 0\<rparr>)"
  using address_device_commands [of session sim_device idle]
    address_device_commands [of solo_session sim_device idle]
    address_device_commands [of session absent_device idle]
  by (auto simp: session_def solo_session_def sim_device_def absent_device_def idle_def
      OWB_ROM_SKIP_def OWB_ROM_MATCH_def split: prod.splits)

section \<open>Reading the scratchpad\<close>

lemma read_scratchpad_absent:
  assumes "init info" and "\<not> env_present env (trace s @ [OwbReset])"
  shows "read_scratchpad env info (Some sp) count s =
           (DS18B20_ERROR_UNKNOWN, Some sp, s\<lparr>trace := trace s @ [OwbReset]\<rparr>)"
  using assms by (simp add: read_scratchpad_def address_device_init Let_def)

lemma read_scratchpad_crc:
  assumes "init info" and "use_crc info" and "length sp = sizeof_Scratchpad"
    and "env_present env (trace s @ [OwbReset])"
    and "env_status env (read_history info s 9) = OWB_STATUS_OK"
    and "env_status env (trace s @ OwbReset # selection info @ [OwbWriteByte DS18B20_FUNCTION_SCRATCHPAD_READ]) = OWB_STATUS_OK"
  shows "read_scratchpad env info (Some sp) count s =
           (let bytes = map (env_read_byte env (read_history info s 9)) [0..<9]
            in (if owb_crc8_bytes 0 bytes \<noteq> 0 then DS18B20_ERROR_CRC else DS18B20_OK,
                Some bytes, s\<lparr>trace := read_history info s 9\<rparr>))"
  using assms
  by (simp add: read_scratchpad_def address_device_init Let_def bus_defs min_size_def read_history_def
      sizeof_Scratchpad_def)

lemma read_scratchpad_Some:
  "\<exists>err sp' s'. read_scratchpad env info (Some sp) count s = (err, Some sp', s')
      \<and> (length sp = sizeof_Scratchpad \<longrightarrow> length sp' = sizeof_Scratchpad)"
proof (cases "init info")
  case False
  then show ?thesis
    by (simp add: read_scratchpad_def Let_def address_device_not_init)
next
  case True
  show ?thesis
    by (simp add: read_scratchpad_def Let_def address_device_init [OF True] bus_defs min_size_def
        sizeof_Scratchpad_def)
qed

lemma read_scratchpad_crc_count:
  assumes "use_crc info"
  shows "OwbReadBytes n \<in> set (drop (length (trace s))
           (trace (snd (snd (read_scratchpad env info sp count s))))) \<Longrightarrow> n = 9"
proof (cases sp)
  case None
  then show "OwbReadBytes n \<in> set (drop (length (trace s))
      (trace (snd (snd (read_scratchpad env info sp count s))))) \<Longrightarrow> n = 9"
    by (simp add: read_scratchpad_def)
next
  case (Some b)
  show "OwbReadBytes n \<in> set (drop (length (trace s))
      (trace (snd (snd (read_scratchpad env info sp count s))))) \<Longrightarrow> n = 9"
  proof (cases "init info")
    case False
    then show "OwbReadBytes n \<in> set (drop (length (trace s))
        (trace (snd (snd (read_scratchpad env info sp count s))))) \<Longrightarrow> n = 9"
      by (simp add: Some read_scratchpad_def Let_def address_device_not_init)
  next
    case True
    show "OwbReadBytes n \<in> set (drop (length (trace s))
        (trace (snd (snd (read_scratchpad env info sp count s))))) \<Longrightarrow> n = 9"
      using assms
      by (simp add: Some read_scratchpad_def Let_def address_device_init [OF True] bus_defs
          min_size_def sizeof_Scratchpad_def selection_def split: if_splits)
  qed
qed

text \<open>
  Claim C1. With CRC checking enabled, whatever count is requested, every read that
  the scratchpad read asks of the bus is for all nine bytes; when the device is present
  and both transfers succeed, it returns the nine bytes delivered, with
  \<open>DS18B20_ERROR_CRC\<close> exactly when the CRC-8 (seed 0) of the nine bytes is not zero and
  with \<open>DS18B20_OK\<close> when it is zero. The nine bytes are arbitrary: they are whatever
  the bus delivers.
\<close>

theorem read_scratchpad_crc_gate:
  assumes "init info" and "use_crc info" and "length sp = sizeof_Scratchpad"
  shows "(\<forall>n. OwbReadBytes n \<in> set (drop (length (trace s))
                 (trace (snd (snd (read_scratchpad env info (Some sp) count s)))))
              \<longrightarrow> n = 9) \<and>
         (env_present env (trace s @ [OwbReset]) \<and>
          env_status env (trace s @ OwbReset # selection info
            @ [OwbWriteByte DS18B20_FUNCTION_SCRATCHPAD_READ]) = OWB_STATUS_OK \<and>
          env_status env (read_history info s 9) = OWB_STATUS_OK \<longrightarrow>
            (let bytes = map (env_read_byte env (read_history info s 9)) [0..<9];
                 (err, sp', s') = read_scratchpad env info (Some sp) count s
             in trace s' = read_history info s 9 \<and>
                last (trace s') = OwbReadBytes 9 \<and>
                sp' = Some bytes \<and>
                (err = DS18B20_ERROR_CRC \<longleftrightarrow> owb_crc8_bytes 0 bytes \<noteq> 0) \<and>
                (err = DS18B20_OK \<longleftrightarrow> owb_crc8_bytes 0 bytes = 0)))"
proof (intro conjI allI impI)
  fix n
  assume "OwbReadBytes n \<in> set (drop (length (trace s))
      (trace (snd (snd (read_scratchpad env info (Some sp) count s)))))"
  then show "n = 9" by (rule read_scratchpad_crc_count [OF assms(2)])
next
  assume "env_present env (trace s @ [OwbReset]) \<and>
      env_status env (trace s @ OwbReset # selection info
        @ [OwbWriteByte DS18B20_FUNCTION_SCRATCHPAD_READ]) = OWB_STATUS_OK \<and>
      env_status env (read_history info s 9) = OWB_STATUS_OK"
  then show "(let bytes = map (env_read_byte env (read_history info s 9)) [0..<9];
                 (err, sp', s') = read_scratchpad env info (Some sp) count s
             in trace s' = read_history info s 9 \<and>
                last (trace s') = OwbReadBytes 9 \<and>
                sp' = Some bytes \<and>
                (err = DS18B20_ERROR_CRC \<longleftrightarrow> owb_crc8_bytes 0 bytes \<noteq> 0) \<and>
                (err = DS18B20_OK \<longleftrightarrow> owb_crc8_bytes 0 bytes = 0))"
    using assms by (simp add: read_scratchpad_crc Let_def read_history_def)
qed

subsection \<open>Examples on the simulated devices\<close>

lemma funpow_8: "(f ^^ 8) x = f (f (f (f (f (f (f (f x)))))))"
  by (simp add: eval_nat_numeral)

lemmas crc_eval = owb_crc8_bytes_def owb_crc8_byte_def crc8_shift_def funpow_8

lemma crc_examples:
  "owb_crc8_bytes 0 power_on_scratchpad = 0x1C"
  "owb_crc8_bytes 0 [0x50, 0x05, 0x4B, 0x46, 0x7F, 0xFF, 0x0C, 0x10, 0x1C] = 0"
  "owb_crc8_bytes 0 [0x51, 0x05, 0x4B, 0x46, 0x7F, 0xFF, 0x0C, 0x10, 0x1C] \<noteq> 0"
  by (simp_all add: crc_eval power_on_scratchpad_def)

lemma map_nth_9: "length xs = 9 \<Longrightarrow> map ((!) xs) [0..<9] = xs"
  using map_nth [of xs] by simp

lemma sim_scratchpad_no_write:
  "last_written h = None \<Longrightarrow>
     sim_scratchpad h = [0x50, 0x05, 0x4B, 0x46, 0x7F, 0xFF, 0x0C, 0x10, 0x1C]"
  by (simp add: sim_scratchpad_def crc_examples(1)) (simp add: power_on_scratchpad_def)

lemma last_written_read_history:
  "last_written (read_history session idle n) = None"
  by (simp add: read_history_def selection_def session_def idle_def)

lemma sim_device_delivers:
  "map (env_read_byte sim_device (read_history session idle 9)) [0..<9]
     = [0x50, 0x05, 0x4B, 0x46, 0x7F, 0xFF, 0x0C, 0x10, 0x1C]"
  by (simp add: sim_device_def sim_scratchpad_no_write [OF last_written_read_history] map_nth_9)

lemma noisy_device_delivers:
  "map (env_read_byte noisy_device (read_history session idle 9)) [0..<9]
     = [0x51, 0x05, 0x4B, 0x46, 0x7F, 0xFF, 0x0C, 0x10, 0x1C]"
  by (simp add: noisy_device_def sim_device_def
      sim_scratchpad_no_write [OF last_written_read_history] map_nth_9)

theorem read_scratchpad_crc_gate_witness:
  "init session \<and> use_crc session \<and> length zero_scratchpad = sizeof_Scratchpad \<and>
   env_present sim_device (trace idle @ [OwbReset]) \<and>
   env_present noisy_device (trace idle @ [OwbReset]) \<and>
   fst (read_scratchpad sim_device session (Some zero_scratchpad) 2 idle) = DS18B20_OK \<and>
   fst (snd (read_scratchpad sim_device session (Some zero_scratchpad) 2 idle))
     = Some [0x50, 0x05, 0x4B, 0x46, 0x7F, 0xFF, 0x0C, 0x10, 0x1C] \<and>
   fst (read_scratchpad noisy_device session (Some zero_scratchpad) 2 idle) = DS18B20_ERROR_CRC"
proof -
  have i: "init session" and c: "use_crc session"
    and l: "length zero_scratchpad = sizeof_Scratchpad"
    by (simp_all add: session_def zero_scratchpad_def)
  have p: "env_present sim_device h" "env_present noisy_device h"
    "env_status sim_device h = OWB_STATUS_OK" "env_status noisy_device h = OWB_STATUS_OK" for h
    by (simp_all add: sim_device_def noisy_device_def)
  show ?thesis
    using read_scratchpad_crc_gate [OF i c l, of idle sim_device 2, THEN conjunct2]
      read_scratchpad_crc_gate [OF i c l, of idle noisy_device 2, THEN conjunct2]
    unfolding sim_device_delivers noisy_device_delivers
    by (simp add: i c l p crc_examples case_prod_beta Let_def)
qed

subsection \<open>No device present\<close>

text \<open>
  Claim C4, as amended. For every initialised session, when no device answers the bus
  reset performed by addressing, the scratchpad read fails with
  \<open>DS18B20_ERROR_UNKNOWN\<close>, the value set before a cause is determined; nothing but the
  reset is sent and the buffer is left as it was. Addressing reports absence as a
  boolean only, and no branch turns it into \<open>DS18B20_ERROR_DEVICE\<close>.
\<close>

theorem read_scratchpad_not_present:
  assumes "init info" and "\<not> env_present env (trace s @ [OwbReset])"
  shows "read_scratchpad env info (Some sp) count s =
           (DS18B20_ERROR_UNKNOWN, Some sp, s\<lparr>trace := trace s @ [OwbReset]\<rparr>)"
  using assms by (rule read_scratchpad_absent)

theorem read_scratchpad_not_present_witness:
  "init session \<and> \<not> env_present absent_device (trace idle @ [OwbReset]) \<and>
   read_scratchpad absent_device session (Some zero_scratchpad) 2 idle =
     (DS18B20_ERROR_UNKNOWN, Some zero_scratchpad, \<lparr>trace = [OwbReset], ticks = 0\<rparr>)"
  using read_scratchpad_not_present [of session absent_device idle zero_scratchpad 2]
  by (simp add: session_def absent_device_def sim_device_def idle_def)

text \<open>
  Claim C4 as stated fails: with no device present the error is the unclassified
  one, not the one that stands for ``no device answered a reset''.
\<close>

theorem read_scratchpad_not_present_counterexample:
  "init session \<and> \<not> env_present absent_device (trace idle @ [OwbReset]) \<and>
   fst (read_scratchpad absent_device session (Some zero_scratchpad) 2 idle) = DS18B20_ERROR_UNKNOWN \<and>
   fst (read_scratchpad absent_device session (Some zero_scratchpad) 2 idle) \<noteq> DS18B20_ERROR_DEVICE"
proof -
  have "init session" and "\<not> env_present absent_device (trace idle @ [OwbReset])"
    by (simp_all add: session_def absent_device_def sim_device_def)
  then show ?thesis by (simp add: read_scratchpad_absent)
qed

section \<open>Reading the resolution\<close>

lemma extracted_resolution_valid:
  fixes c :: u8
  shows "check_resolution ((drop_bit 5 (uint c) AND 0x03) + DS18B20_RESOLUTION_9_BIT)"
proof -
  have "0 \<le> drop_bit 5 (uint c) AND 3" by simp
  moreover have "drop_bit 5 (uint c) AND 3 \<le> 3" by (rule AND_upper2) simp
  ultimately show ?thesis by (simp add: check_resolution_def resolution_defs)
qed

lemma ds18b20_read_resolution_init:
  assumes "init info"
  shows "ds18b20_read_resolution env info s =
           (let (err, rd, s1) = read_scratchpad env info (Some zero_scratchpad) 5 s
            in ((drop_bit 5 (uint (configuration (the rd))) AND 0x03) + DS18B20_RESOLUTION_9_BIT, s1))"
  using assms
  by (simp add: ds18b20_read_resolution_def is_init_Some layout_defs Let_def
      extracted_resolution_valid split: prod.splits)

lemma read_scratchpad_write_fault:
  assumes "init info" and "env_present env (trace s @ [OwbReset])"
    and "env_status env (trace s @ OwbReset # selection info
           @ [OwbWriteByte DS18B20_FUNCTION_SCRATCHPAD_READ]) \<noteq> OWB_STATUS_OK"
  shows "read_scratchpad env info (Some sp) count s =
           (DS18B20_ERROR_OWB, Some sp,
            s\<lparr>trace := trace s @ OwbReset # selection info
                  @ [OwbWriteByte DS18B20_FUNCTION_SCRATCHPAD_READ]\<rparr>)"
  using assms by (simp add: read_scratchpad_def address_device_init Let_def bus_defs)

lemma configuration_zero_scratchpad:
  "(drop_bit 5 (uint (configuration zero_scratchpad)) AND 0x03) + DS18B20_RESOLUTION_9_BIT
     = DS18B20_RESOLUTION_9_BIT"
  by (simp add: configuration_def zero_scratchpad_def layout_defs)

lemma configuration_delivered: "configuration (map f [0..<9]) = f 4"
  by (simp add: configuration_def layout_defs)

lemma noisy_device_read:
  "read_scratchpad noisy_device session (Some zero_scratchpad) 5 idle =
     (DS18B20_ERROR_CRC, Some [0x51, 0x05, 0x4B, 0x46, 0x7F, 0xFF, 0x0C, 0x10, 0x1C],
      idle\<lparr>trace := read_history session idle 9\<rparr>)"
proof -
  have i: "init session" and c: "use_crc session"
    and l: "length zero_scratchpad = sizeof_Scratchpad"
    by (simp_all add: session_def zero_scratchpad_def)
  have p: "env_present noisy_device h" "env_status noisy_device h = OWB_STATUS_OK" for h
    by (simp_all add: sim_device_def noisy_device_def)
  show ?thesis
    by (simp add: read_scratchpad_crc [OF i c l p(1) p(2) p(2)] noisy_device_delivers
        crc_examples)
qed

lemma noisy_device_resolution:
  "fst (ds18b20_read_resolution noisy_device session idle) = 12"
proof -
  have i: "init session" by (simp add: session_def)
  show ?thesis
    by (simp add: ds18b20_read_resolution_init [OF i] noisy_device_read)
      (simp add: configuration_def layout_defs resolution_defs)
qed

text \<open>
  Claim C10, as amended. \<open>ds18b20_read_resolution\<close> does not look at the error of the
  scratchpad read: for every initialised session its result is extracted from the
  configuration byte of the local buffer whatever the error is. When the read fails
  before a byte is received (no device answers the reset, or the read command is not
  written) the buffer still holds its initial zeros and the result is 9 bits, not the
  invalid marker; when the nine bytes are received and their CRC check fails, the
  result is extracted from the configuration byte received. The extracted value
  \<open>((configuration >> 5) & 3) + 9\<close> lies in 9..12 for every byte, so the branch that
  returns the invalid marker is never taken.
\<close>

theorem read_resolution_ignores_error:
  assumes "init info"
  shows "(let (err, rd, s1) = read_scratchpad env info (Some zero_scratchpad) 5 s
          in ds18b20_read_resolution env info s =
               ((drop_bit 5 (uint (configuration (the rd))) AND 0x03) + DS18B20_RESOLUTION_9_BIT, s1)
             \<and> (\<not> env_present env (trace s @ [OwbReset]) \<longrightarrow>
                   err = DS18B20_ERROR_UNKNOWN \<and>
                   fst (ds18b20_read_resolution env info s) = DS18B20_RESOLUTION_9_BIT)
             \<and> (env_present env (trace s @ [OwbReset]) \<and>
                  env_status env (trace s @ OwbReset # selection info
                    @ [OwbWriteByte DS18B20_FUNCTION_SCRATCHPAD_READ]) \<noteq> OWB_STATUS_OK \<longrightarrow>
                   err = DS18B20_ERROR_OWB \<and>
                   fst (ds18b20_read_resolution env info s) = DS18B20_RESOLUTION_9_BIT)
             \<and> (use_crc info \<and> env_present env (trace s @ [OwbReset]) \<and>
                  env_status env (trace s @ OwbReset # selection info
                    @ [OwbWriteByte DS18B20_FUNCTION_SCRATCHPAD_READ]) = OWB_STATUS_OK \<and>
                  env_status env (read_history info s 9) = OWB_STATUS_OK \<and>
                  owb_crc8_bytes 0 (map (env_read_byte env (read_history info s 9)) [0..<9]) \<noteq> 0
                  \<longrightarrow>
                   err = DS18B20_ERROR_CRC \<and>
                   fst (ds18b20_read_resolution env info s) =
                     (drop_bit 5 (uint (env_read_byte env (read_history info s 9) 4)) AND 0x03)
                       + DS18B20_RESOLUTION_9_BIT))
         \<and> (\<forall>c :: u8. check_resolution ((drop_bit 5 (uint c) AND 0x03) + DS18B20_RESOLUTION_9_BIT))
         \<and> check_resolution (fst (ds18b20_read_resolution env info s))
         \<and> fst (ds18b20_read_resolution env info s) \<noteq> DS18B20_RESOLUTION_INVALID"
proof -
  obtain err rd s1 where r: "read_scratchpad env info (Some zero_scratchpad) 5 s = (err, rd, s1)"
    by (cases "read_scratchpad env info (Some zero_scratchpad) 5 s") auto
  have v: "ds18b20_read_resolution env info s =
            ((drop_bit 5 (uint (configuration (the rd))) AND 0x03) + DS18B20_RESOLUTION_9_BIT, s1)"
    by (simp add: ds18b20_read_resolution_init [OF assms] r)
  have ok: "check_resolution (fst (ds18b20_read_resolution env info s))"
    by (simp add: v extracted_resolution_valid)
  then have ninv: "fst (ds18b20_read_resolution env info s) \<noteq> DS18B20_RESOLUTION_INVALID"
    by (auto simp: check_resolution_def resolution_defs)
  have l: "length zero_scratchpad = sizeof_Scratchpad"
    by (simp add: zero_scratchpad_def)
  have absent: "err = DS18B20_ERROR_UNKNOWN \<and>
      fst (ds18b20_read_resolution env info s) = DS18B20_RESOLUTION_9_BIT"
    if "\<not> env_present env (trace s @ [OwbReset])"
  proof -
    from r read_scratchpad_absent [OF assms that, of zero_scratchpad 5]
    have "err = DS18B20_ERROR_UNKNOWN" and "rd = Some zero_scratchpad" by simp_all
    then show ?thesis by (simp add: v configuration_zero_scratchpad)
  qed
  have fault: "err = DS18B20_ERROR_OWB \<and>
      fst (ds18b20_read_resolution env info s) = DS18B20_RESOLUTION_9_BIT"
    if "env_present env (trace s @ [OwbReset])"
      and "env_status env (trace s @ OwbReset # selection info
             @ [OwbWriteByte DS18B20_FUNCTION_SCRATCHPAD_READ]) \<noteq> OWB_STATUS_OK"
  proof -
    from r read_scratchpad_write_fault [OF assms that, of zero_scratchpad 5]
    have "err = DS18B20_ERROR_OWB" and "rd = Some zero_scratchpad" by simp_all
    then show ?thesis by (simp add: v configuration_zero_scratchpad)
  qed
  have crc: "err = DS18B20_ERROR_CRC \<and>
      fst (ds18b20_read_resolution env info s) =
        (drop_bit 5 (uint (env_read_byte env (read_history info s 9) 4)) AND 0x03)
          + DS18B20_RESOLUTION_9_BIT"
    if "use_crc info" and "env_present env (trace s @ [OwbReset])"
      and "env_status env (trace s @ OwbReset # selection info
             @ [OwbWriteByte DS18B20_FUNCTION_SCRATCHPAD_READ]) = OWB_STATUS_OK"
      and "env_status env (read_history info s 9) = OWB_STATUS_OK"
      and "owb_crc8_bytes 0 (map (env_read_byte env (read_history info s 9)) [0..<9]) \<noteq> 0"
  proof -
    from r read_scratchpad_crc [OF assms that(1) l that(2) that(4) that(3), of 5] that(5)
    have "err = DS18B20_ERROR_CRC"
      and "rd = Some (map (env_read_byte env (read_history info s 9)) [0..<9])"
      by (simp_all add: Let_def)
    then show ?thesis by (simp add: v configuration_delivered)
  qed
  show ?thesis
    using v ok ninv absent fault crc by (simp add: r extracted_resolution_valid)
qed

theorem read_resolution_ignores_error_witness:
  "init session \<and> \<not> env_present absent_device (trace idle @ [OwbReset]) \<and>
   fst (read_scratchpad absent_device session (Some zero_scratchpad) 5 idle) = DS18B20_ERROR_UNKNOWN \<and>
   fst (ds18b20_read_resolution absent_device session idle) = 9 \<and>
   use_crc session \<and> env_present noisy_device (trace idle @ [OwbReset]) \<and>
   env_read_byte noisy_device (read_history session idle 9) 4 = 0x7F \<and>
   fst (read_scratchpad noisy_device session (Some zero_scratchpad) 5 idle) = DS18B20_ERROR_CRC \<and>
   fst (ds18b20_read_resolution noisy_device session idle) = (drop_bit 5 (uint (0x7F :: u8)) AND 0x03) + 9"
proof -
  have i: "init session" and c: "use_crc session" by (simp_all add: session_def)
  have a: "\<not> env_present absent_device (trace idle @ [OwbReset])"
    by (simp add: absent_device_def sim_device_def)
  have p: "env_present noisy_device h" "env_status noisy_device h = OWB_STATUS_OK" for h
    by (simp_all add: sim_device_def noisy_device_def)
  have n: "owb_crc8_bytes 0 (map (env_read_byte noisy_device (read_history session idle 9)) [0..<9])
      \<noteq> 0"
    by (simp add: noisy_device_delivers crc_examples)
  have b: "env_read_byte noisy_device (read_history session idle 9) 4 = 0x7F"
    using arg_cong [OF noisy_device_delivers, of "\<lambda>xs. xs ! 4"] by simp
  show ?thesis
    using read_resolution_ignores_error [OF i, of absent_device idle]
      read_resolution_ignores_error [OF i, of noisy_device idle] i c a p n b
    unfolding Let_def case_prod_beta resolution_defs by metis
qed

text \<open>
  Claim C10 as stated fails: a scratchpad read that fails its CRC check has already
  stored the bytes received, and the resolution is extracted from them. Here the read
  fails and the result is 12 bits, not 9.
\<close>

theorem read_resolution_failed_read_counterexample:
  "init session \<and> use_crc session \<and>
   fst (read_scratchpad noisy_device session (Some zero_scratchpad) 5 idle) = DS18B20_ERROR_CRC \<and>
   fst (ds18b20_read_resolution noisy_device session idle) = DS18B20_RESOLUTION_12_BIT \<and>
   fst (ds18b20_read_resolution noisy_device session idle) \<noteq> DS18B20_RESOLUTION_9_BIT"
proof -
  have "init session" and "use_crc session" by (simp_all add: session_def)
  then show ?thesis
    by (simp add: noisy_device_read noisy_device_resolution resolution_defs)
qed

text \<open>
  Both constructors leave an initialised session whose cached resolution is valid,
  whatever the bus answers.
\<close>

lemma ds18b20_init_valid:
  "init (fst (ds18b20_init env info code s))"
  "check_resolution (resolution (fst (ds18b20_init env info code s)))"
  "init (fst (ds18b20_init_solo env info s))"
  "check_resolution (resolution (fst (ds18b20_init_solo env info s)))"
  by (simp_all add: ds18b20_init_def ds18b20_init_solo_def init_info_def Let_def
      ds18b20_read_resolution_init case_prod_beta extracted_resolution_valid)

section \<open>Setting the resolution\<close>

lemma last_written_append:
  "last_written (xs @ ys) =
     (case last_written ys of Some bs \<Rightarrow> Some bs | None \<Rightarrow> last_written xs)"
  by (induction xs) (simp_all split: option.splits)

lemma last_written_selection: "last_written (selection info) = None"
  by (simp add: selection_def)

text \<open>A scratchpad read that meets no fault.\<close>

lemma read_scratchpad_ok:
  assumes "init info"
    and "env_present env (trace s @ [OwbReset])"
    and "env_status env (trace s @ OwbReset # selection info
           @ [OwbWriteByte DS18B20_FUNCTION_SCRATCHPAD_READ]) = OWB_STATUS_OK"
    and "env_status env (read_history info s n) = OWB_STATUS_OK"
    and "n = (if use_crc info then 9 else min_size 9 count)"
    and "use_crc info \<longrightarrow> owb_crc8_bytes 0 (map (env_read_byte env (read_history info s 9)) [0..<9]) = 0"
    and "length sp = 9"
  shows "read_scratchpad env info (Some sp) count s =
           (DS18B20_OK,
            Some (map (env_read_byte env (read_history info s n)) [0..<n] @ drop n sp),
            s\<lparr>trace := read_history info s n @ (if use_crc info then [] else [OwbReset])\<rparr>)"
proof (cases "use_crc info")
  case True
  with assms show ?thesis
    by (simp add: read_scratchpad_def address_device_init Let_def bus_defs min_size_def
        read_history_def sizeof_Scratchpad_def)
next
  case False
  with assms show ?thesis
    by (simp add: read_scratchpad_def address_device_init Let_def bus_defs
        read_history_def sizeof_Scratchpad_def)
qed


lemma honours_writesD:
  assumes "honours_writes env"
  shows "env_present env h" and "env_status env h = OWB_STATUS_OK"
    and "owb_crc8_bytes 0 (map (env_read_byte env h) [0..<9]) = 0"
    and "last_written h = Some [a, b, c] \<Longrightarrow> map (env_read_byte env h) [2..<5] = [a, b, c]"
  using assms by (simp_all add: honours_writes_def sizeof_Scratchpad_def)

lemma honoured_read:
  assumes hw: "honours_writes env" and i: "init info" and len: "length sp = 9"
    and n: "n = (if use_crc info then 9 else 5)"
  shows "read_scratchpad env info (Some sp) 5 s =
           (DS18B20_OK,
            Some (map (env_read_byte env (read_history info s n)) [0..<n] @ drop n sp),
            s\<lparr>trace := read_history info s n @ (if use_crc info then [] else [OwbReset])\<rparr>)"
  by (rule read_scratchpad_ok [OF i honours_writesD(1) [OF hw] honours_writesD(2) [OF hw]
        honours_writesD(2) [OF hw] _ _ len])
    (simp_all add: n min_size_def honours_writesD(3) [OF hw])

lemma take3_drop2:
  assumes "5 \<le> n"
  shows "take 3 (drop 2 (map f [0..<n] @ rest)) = map f [2..<5]"
proof -
  have "drop 2 (map f [0..<n]) = map f [2..<n]"
    by (simp add: drop_map numeral_2_eq_2)
  moreover have "take 3 (map f [2..<n]) = map f [2..<5]"
    using assms by (simp add: take_map min_def)
  ultimately show ?thesis using assms by simp
qed

lemma set_resolution_honoured:
  assumes hw: "honours_writes env" and i: "init info"
    and c: "check_resolution (resolution info)"
  shows "\<exists>th tl s'. ds18b20_set_resolution env info res s = (True, info\<lparr>resolution := res\<rparr>, s')
           \<and> OwbWriteBytes [th, tl, configuration_value res]
                 \<in> set (drop (length (trace s)) (trace s'))"
proof -
  define n :: nat where "n = (if use_crc info then 9 else 5)"
  define tail where "tail = (if use_crc info then [] else [OwbReset])"
  define h1 where "h1 = read_history info s n"
  define rd1 where "rd1 = map (env_read_byte env h1) [0..<n] @ drop n zero_scratchpad"
  define s1 where "s1 = s\<lparr>trace := h1 @ tail\<rparr>"
  have n5: "5 \<le> n" "n \<le> 9" by (simp_all add: n_def)
  have lz: "length zero_scratchpad = 9" by (simp add: zero_scratchpad_def sizeof_Scratchpad_def)
  have r1: "read_scratchpad env info (Some zero_scratchpad) 5 s = (DS18B20_OK, Some rd1, s1)"
    unfolding rd1_def s1_def h1_def tail_def by (rule honoured_read [OF hw i lz n_def])
  have l1: "length rd1 = 9" using n5 by (simp add: rd1_def lz)
  define sp where "sp = rd1[offsetof_configuration := configuration_value res]"
  define w where "w = [rd1 ! 2, rd1 ! 3, configuration_value res]"
  have w: "take 3 (drop offsetof_trigger_high sp) = w"
  proof -
    have "length sp = 9" by (simp add: sp_def l1)
    then obtain x0 x1 x2 x3 x4 x5 x6 x7 x8 where e: "rd1 = [x0, x1, x2, x3, x4, x5, x6, x7, x8]"
      using l1 by (auto simp: length_Suc_conv eval_nat_numeral)
    show ?thesis by (simp add: sp_def w_def e layout_defs)
  qed
  define s3 where "s3 = s1\<lparr>trace := trace s1 @ OwbReset # selection info
      @ [OwbWriteByte DS18B20_FUNCTION_SCRATCHPAD_WRITE, OwbWriteBytes w]\<rparr>"
  define h2 where "h2 = read_history info s3 n"
  define rd2 where "rd2 = map (env_read_byte env h2) [0..<n] @ drop n zero_scratchpad"
  define s4 where "s4 = s3\<lparr>trace := h2 @ tail\<rparr>"
  have r2: "read_scratchpad env info (Some zero_scratchpad) 5 s3 = (DS18B20_OK, Some rd2, s4)"
    unfolding rd2_def s4_def h2_def tail_def by (rule honoured_read [OF hw i lz n_def])
  have lw: "last_written h2 = Some w"
    by (simp add: h2_def s3_def read_history_def last_written_append last_written_selection)
  have v: "take 3 (drop offsetof_trigger_high rd2) = w"
    unfolding rd2_def offsetof_trigger_high_def take3_drop2 [OF n5(1)] w_def
    by (rule honours_writesD(4) [OF hw]) (simp add: lw w_def)
  have cnt: "Suc offsetof_configuration = 5" "Suc (offsetof_configuration - offsetof_temperature) = 5"
    by (simp_all add: layout_defs)
  have ws: "write_scratchpad env info sp True s1 = (True, s4)"
    by (simp add: write_scratchpad_def is_init_Some i address_device_init honours_writesD(1) [OF hw]
        bus_defs Let_def w cnt s3_def [symmetric] r2 v)
  have "ds18b20_set_resolution env info res s = (True, info\<lparr>resolution := res\<rparr>, s4)"
    by (simp add: ds18b20_set_resolution_def is_init_Some i c cnt r1 Let_def
        sp_def [symmetric] ws)
  moreover have "OwbWriteBytes [rd1 ! 2, rd1 ! 3, configuration_value res]
      \<in> set (drop (length (trace s)) (trace s4))"
    by (simp add: s4_def h2_def s3_def s1_def h1_def read_history_def w_def)
  ultimately show ?thesis by blast
qed





lemma crc8_shift_0: "crc8_shift 0 = 0"
  by (simp add: crc8_shift_def)

lemma owb_crc8_byte_self: "owb_crc8_byte c c = 0"
  by (simp add: owb_crc8_byte_def funpow_8 crc8_shift_0)

lemma owb_crc8_bytes_append_crc: "owb_crc8_bytes c (xs @ [owb_crc8_bytes c xs]) = 0"
  by (simp add: owb_crc8_bytes_def owb_crc8_byte_self)

lemma length_sim_scratchpad: "length (sim_scratchpad h) = 9"
  by (auto simp: sim_scratchpad_def Let_def power_on_scratchpad_def split: option.splits)

lemma sim_scratchpad_crc: "owb_crc8_bytes 0 (sim_scratchpad h) = 0"
  by (simp add: sim_scratchpad_def Let_def owb_crc8_bytes_append_crc)

lemma sim_scratchpad_written:
  assumes "last_written h = Some [a, b, c]"
  shows "sim_scratchpad h ! 2 = a" and "sim_scratchpad h ! 3 = b" and "sim_scratchpad h ! 4 = c"
  using assms by (simp_all add: sim_scratchpad_def power_on_scratchpad_def)

lemma honours_writes_sim_device: "honours_writes sim_device"
  by (simp add: honours_writes_def sim_device_def sizeof_Scratchpad_def map_nth_9
      length_sim_scratchpad sim_scratchpad_crc sim_scratchpad_written)



text \<open>
  Claim C9. \<open>ds18b20_set_resolution\<close> checks the cached resolution only, never its
  argument. For every initialised session with a valid cached resolution and every
  \<open>int\<close> argument \<open>r\<close> outside 9..12 (but the least \<open>int\<close>, whose predecessor C does
  not define), with a device that honours writes, it writes the
  configuration byte \<open>(((r - 1) & 3) << 5) | 0x1F\<close> after the two trigger bytes, returns
  success and leaves \<open>r\<close> in the cache: a value that is not a supported resolution
  and, unless \<open>r\<close> is the marker itself, not the invalid marker either.
\<close>

theorem set_resolution_unchecked_argument:
  assumes "honours_writes env" and "init info" and "check_resolution (resolution info)"
    and "\<not> check_resolution res" and "- (2 ^ 31) < res" and "res < 2 ^ 31"
  shows "\<exists>th tl s'.
           ds18b20_set_resolution env info res s = (True, info\<lparr>resolution := res\<rparr>, s') \<and>
           OwbWriteBytes [th, tl, configuration_value res]
             \<in> set (drop (length (trace s)) (trace s')) \<and>
           configuration_value res = word_of_int (push_bit 5 ((res - 1) AND 0x03) OR 0x1F) \<and>
           \<not> check_resolution (resolution (info\<lparr>resolution := res\<rparr>)) \<and>
           (res \<noteq> DS18B20_RESOLUTION_INVALID \<longrightarrow>
              resolution (info\<lparr>resolution := res\<rparr>) \<notin> {9, 10, 11, 12, DS18B20_RESOLUTION_INVALID})"
proof -
  from set_resolution_honoured [OF assms(1-3), of res s] obtain th tl s' where
    "ds18b20_set_resolution env info res s = (True, info\<lparr>resolution := res\<rparr>, s')"
    "OwbWriteBytes [th, tl, configuration_value res] \<in> set (drop (length (trace s)) (trace s'))"
    by blast
  moreover have "res \<notin> {9, 10, 11, 12}" using assms(4) by (simp add: check_resolution_cases)
  ultimately show ?thesis using assms(4) by (auto simp: configuration_value_def)
qed

theorem set_resolution_unchecked_argument_witness:
  "honours_writes sim_device \<and> init session \<and> check_resolution (resolution session) \<and>
   \<not> check_resolution 13 \<and> - (2 ^ 31) < (13 :: int) \<and> (13 :: int) < 2 ^ 31 \<and>
   fst (ds18b20_set_resolution sim_device session 13 idle) = True \<and>
   resolution (fst (snd (ds18b20_set_resolution sim_device session 13 idle))) = 13 \<and>
   configuration_value 13 = 0x1F"
proof -
  have i: "init session" and c: "check_resolution (resolution session)"
    and n: "\<not> check_resolution 13"
    by (simp_all add: session_def check_resolution_def resolution_defs)
  have v: "configuration_value 13 = 0x1F" by (simp add: configuration_value_def)
  show ?thesis
    using set_resolution_unchecked_argument [OF honours_writes_sim_device i c n, of idle]
      honours_writes_sim_device i c n v
    by auto
qed

section \<open>The wait loop\<close>




subsection \<open>The number of ticks allowed\<close>






subsection \<open>The wait returns\<close>







end
